theory Spec2Isabelle
  imports Main "HOL-Library.AList"
begin

section \<open>Python values\<close>

text \<open>
  A Python \<open>str\<close> is a sequence of Unicode code points. Several headings of the
  templates of \<open>outline_sync.py\<close> hold characters beyond one byte, so a string is a list
  of code points, and an ASCII literal of the source is written \<open>lit ''...''\<close>.
\<close>

type_synonym pystr = "nat list"

definition lit :: "string \<Rightarrow> pystr" where
  "lit s = map of_char s"

text \<open>A value of a column of a row fetched by psycopg2: SQL NULL, a text or an integer.\<close>

datatype pyval = PNone | PStr pystr | PInt int

text \<open>Truth value of \<open>if v\<close> and of \<open>v or default\<close>.\<close>

fun truthy :: "pyval \<Rightarrow> bool" where
  "truthy PNone = False"
| "truthy (PStr s) = (s \<noteq> [])"
| "truthy (PInt i) = (i \<noteq> 0)"

text \<open>\<open>str(n)\<close> of an integer: its decimal digits, with a minus sign below 0.\<close>

fun digits_of :: "nat \<Rightarrow> pystr" where
  "digits_of n = (if n < 10 then [48 + n] else digits_of (n div 10) @ [48 + n mod 10])"

definition str_of_int :: "int \<Rightarrow> pystr" where
  "str_of_int i = (if i < 0 then 45 # digits_of (nat (- i)) else digits_of (nat i))"

text \<open>What an f-string or \<open>str\<close> makes of a value.\<close>

fun py_str :: "pyval \<Rightarrow> pystr" where
  "py_str PNone = lit ''None''"
| "py_str (PStr s) = s"
| "py_str (PInt i) = str_of_int i"




subsection \<open>Character classes\<close>

text \<open>
  \<open>str.isspace\<close>, which is also \<open>\s\<close> of the \<open>re\<close> module on a \<open>str\<close> pattern and
  what \<open>str.strip()\<close> removes.
\<close>

definition is_space :: "nat \<Rightarrow> bool" where
  "is_space c \<longleftrightarrow>
     (9 \<le> c \<and> c \<le> 13) \<or> (28 \<le> c \<and> c \<le> 32) \<or> c = 133 \<or> c = 160 \<or> c = 5760 \<or>
     (8192 \<le> c \<and> c \<le> 8202) \<or> c = 8232 \<or> c = 8233 \<or> c = 8239 \<or> c = 8287 \<or>
     c = 12288"

text \<open>
  \<open>\w\<close>, \<open>\d\<close>, \<open>int\<close>, \<open>str.lower\<close> and \<open>str.title\<close> follow the Unicode database
  of the interpreter for a character beyond ASCII. That database is no part of the
  sources, so it is a parameter: the functions below fix what Python does on ASCII and
  ask the parameter for the rest.
\<close>

record unicode =
  alnum_ext :: "nat \<Rightarrow> bool"
  decimal_ext :: "nat \<Rightarrow> nat option"
  lower_ext :: "pystr \<Rightarrow> pystr"
  title_ext :: "pystr \<Rightarrow> pystr"


definition is_upper_ascii :: "nat \<Rightarrow> bool" where
  "is_upper_ascii c \<longleftrightarrow> 65 \<le> c \<and> c \<le> 90"

definition is_lower_ascii :: "nat \<Rightarrow> bool" where
  "is_lower_ascii c \<longleftrightarrow> 97 \<le> c \<and> c \<le> 122"

text \<open>\<open>\w\<close>: alphanumeric or the underscore.\<close>

definition is_word :: "unicode \<Rightarrow> nat \<Rightarrow> bool" where
  "is_word U c \<longleftrightarrow>
     (if c < 128
      then (48 \<le> c \<and> c \<le> 57) \<or> is_upper_ascii c \<or> is_lower_ascii c \<or> c = 95
      else alnum_ext U c)"

text \<open>The value of a decimal digit; \<open>\d\<close> is a character that has one.\<close>

definition decimal :: "unicode \<Rightarrow> nat \<Rightarrow> nat option" where
  "decimal U c =
     (if c < 128 then (if 48 \<le> c \<and> c \<le> 57 then Some (c - 48) else None)
      else decimal_ext U c)"

definition is_digit :: "unicode \<Rightarrow> nat \<Rightarrow> bool" where
  "is_digit U c \<longleftrightarrow> decimal U c \<noteq> None"

datatype exn = ValueError | TypeError | ApiError pystr

text \<open>
  \<open>int(s)\<close> for a string of decimal digits, the only argument the source passes (a match
  of \<open>\d+\<close>). Python's integers are unbounded; the limit that CPython can be configured
  to put on the length of \<open>s\<close> is not modelled. Python also reads a sign, blanks and
  underscores; no caller needs them, and such a string is answered \<open>ValueError\<close> here.
\<close>

definition py_int :: "unicode \<Rightarrow> pystr \<Rightarrow> exn + int" where
  "py_int U s =
     (if s \<noteq> [] \<and> (\<forall>c \<in> set s. is_digit U c)
      then Inr (int (foldl (\<lambda>a c. 10 * a + the (decimal U c)) 0 s))
      else Inl ValueError)"

text \<open>\<open>str.lower\<close> and \<open>str.title\<close>.\<close>

definition lower_ascii :: "nat \<Rightarrow> nat" where
  "lower_ascii c = (if is_upper_ascii c then c + 32 else c)"

definition upper_ascii :: "nat \<Rightarrow> nat" where
  "upper_ascii c = (if is_lower_ascii c then c - 32 else c)"


text \<open>
  \<open>title\<close> walks the string: a cased character after a cased one is lowered, any other
  is put in title case; \<open>cased\<close> is whether the previous character was cased.
\<close>

fun title_ascii :: "bool \<Rightarrow> pystr \<Rightarrow> pystr" where
  "title_ascii cased [] = []"
| "title_ascii cased (c # cs) =
     (if cased then lower_ascii c else upper_ascii c)
       # title_ascii (is_upper_ascii c \<or> is_lower_ascii c) cs"



subsection \<open>String operations\<close>

definition startswith :: "pystr \<Rightarrow> pystr \<Rightarrow> bool" where
  "startswith s p \<longleftrightarrow> take (length p) s = p"

text \<open>\<open>s.find(sub)\<close>: the least index where \<open>sub\<close> occurs, \<open>None\<close> for Python's -1.\<close>

fun find_sub :: "pystr \<Rightarrow> pystr \<Rightarrow> nat option" where
  "find_sub sub [] = (if sub = [] then Some 0 else None)"
| "find_sub sub (c # cs) =
     (if startswith (c # cs) sub then Some 0 else map_option Suc (find_sub sub cs))"


definition py_strip :: "pystr \<Rightarrow> pystr" where
  "py_strip s = rev (dropWhile is_space (rev (dropWhile is_space s)))"



section \<open>The marker parser\<close>

text \<open>
  An itinerary day as a dict of the program: \<open>day_number\<close> and the sub-fields, \<open>None\<close>
  where the key is absent or the column is NULL (what \<open>day.get\<close> returns then).
\<close>

record day =
  day_number :: int
  miles :: "pystr option"
  elevation :: "pystr option"
  trails_waypoints :: "pystr option"
  camp_lodging :: "pystr option"
  meals :: "pystr option"
  content :: "pystr option"

text \<open>The dict that \<open>parse_outline_document\<close> returns (its keys are \<open>fields_p\<close> and \<open>itinerary_days_p\<close> here); a dict keeps its keys in insertion order.\<close>

record parse_result =
  fields_p :: "(pystr \<times> pystr) list"
  itinerary_days_p :: "day list"

subsection \<open>Block patterns\<close>

text \<open>
  Both block patterns have the shape \<open>OPEN(c+) -->\s*(.*?)\s*CLOSE\1 -->\<close> under
  \<open>re.DOTALL\<close>, with \<open>c\<close> the class \<open>\w\<close> or \<open>\d\<close>. \<open>match_block\<close> is one attempt of
  the matcher at the head of \<open>s\<close>; it returns group 1, group 2 and the length of the match.
  \<^item> Group 1 is the longest run of \<open>c\<close> after \<open>OPEN\<close>: a shorter one is followed by a
    character of the class and not by the blank of \<open>' -->'\<close>.
  \<^item> The close marker begins with \<open><\<close>, which is no white space, so it is found where it
    first occurs after the open marker, whatever the two \<open>\s*\<close> take; the lazy \<open>.*?\<close>
    stops at the first place from which only white space leads to it. Group 2 is
    therefore the text between the markers without the white space at its two ends.
\<close>

definition match_block ::
    "(nat \<Rightarrow> bool) \<Rightarrow> pystr \<Rightarrow> pystr \<Rightarrow> pystr \<Rightarrow> (pystr \<times> pystr \<times> nat) option" where
  "match_block cls opn cls_opn s =
     (if \<not> startswith s opn then None
      else let s1 = drop (length opn) s;
               name = takeWhile cls s1;
               s2 = dropWhile cls s1
           in if name = [] \<or> \<not> startswith s2 (lit '' -->'') then None
              else let s3 = drop 4 s2;
                       close = cls_opn @ name @ lit '' -->''
                   in case find_sub close s3 of
                        None \<Rightarrow> None
                      | Some i \<Rightarrow>
                          Some (name, py_strip (take i s3),
                                length opn + length name + 4 + i + length close))"

text \<open>
  \<open>re.finditer\<close>: the matcher is tried at every position from left to right, and after a
  match the scan goes on where the match ended. The first argument after the matcher
  counts the characters of the last match still to be passed. Neither pattern matches
  the empty string, so nothing is found at the end of the text.
\<close>

fun finditer :: "(pystr \<Rightarrow> ('m \<times> nat) option) \<Rightarrow> nat \<Rightarrow> pystr \<Rightarrow> 'm list" where
  "finditer m k [] = []"
| "finditer m (Suc k) (c # cs) = finditer m k cs"
| "finditer m 0 (c # cs) =
     (case m (c # cs) of
        None \<Rightarrow> finditer m 0 cs
      | Some (x, n) \<Rightarrow> x # finditer m (n - 1) cs)"

definition field_pattern :: "unicode \<Rightarrow> pystr \<Rightarrow> ((pystr \<times> pystr) \<times> nat) option" where
  "field_pattern U s =
     map_option (\<lambda>(g1, g2, n). ((g1, g2), n))
       (match_block (is_word U) (lit ''<!-- FIELD:'') (lit ''<!-- /FIELD:'') s)"

definition day_pattern :: "unicode \<Rightarrow> pystr \<Rightarrow> ((pystr \<times> pystr) \<times> nat) option" where
  "day_pattern U s =
     map_option (\<lambda>(g1, g2, n). ((g1, g2), n))
       (match_block (is_digit U) (lit ''<!-- ITINERARY_DAY:'') (lit ''<!-- /ITINERARY_DAY:'') s)"

subsection \<open>Label patterns\<close>

text \<open>
  \<open>re.search\<close>: the first position at which the matcher succeeds, the end of the string
  included.
\<close>

fun re_search :: "(pystr \<Rightarrow> 'a option) \<Rightarrow> pystr \<Rightarrow> 'a option" where
  "re_search m [] = m []"
| "re_search m (c # cs) = (case m (c # cs) of Some g \<Rightarrow> Some g | None \<Rightarrow> re_search m cs)"

text \<open>
  The tail \<open>\s*(X+)\<close> of a label pattern, where \<open>X\<close> is every character but those of
  \<open>stop\<close> (the line feed for \<open>.\<close>, the line feed and the bar for \<open>[^\n|]\<close>); the result
  is the group. \<open>\s*\<close> takes all the white space. When a character of \<open>X\<close> follows, the
  group runs from it to the next stop. Otherwise \<open>\s*\<close> gives white space back until the
  character it gives back is no line feed, and the group is that one character; there is
  no match when every character given back is a line feed.
\<close>

definition value_after :: "(nat \<Rightarrow> bool) \<Rightarrow> pystr \<Rightarrow> pystr option" where
  "value_after stop t =
     (let w = takeWhile is_space t; r = dropWhile is_space t
      in if r \<noteq> [] \<and> \<not> stop (hd r) then Some (takeWhile (\<lambda>c. \<not> stop c) r)
         else (case dropWhile (\<lambda>c. c = 10) (rev w) of [] \<Rightarrow> None | c # _ \<Rightarrow> Some [c]))"

definition stop_line :: "nat \<Rightarrow> bool" where
  "stop_line c \<longleftrightarrow> c = 10"

definition stop_cell :: "nat \<Rightarrow> bool" where
  "stop_cell c \<longleftrightarrow> c = 10 \<or> c = 124"

text \<open>
  \<open>\*\*[^*]+:\*\*\s*(.+)\<close> at the head of \<open>s\<close>. After \<open>**\<close> the class \<open>[^*]+\<close> takes the
  run up to the next star; \<open>:**\<close> can follow only when that run ends with the colon, has
  a character before it, and two stars come next.
\<close>

definition match_label :: "pystr \<Rightarrow> pystr option" where
  "match_label s =
     (if \<not> startswith s (lit ''**'') then None
      else let s1 = drop 2 s;
               run = takeWhile (\<lambda>c. c \<noteq> 42) s1;
               s2 = dropWhile (\<lambda>c. c \<noteq> 42) s1
           in if 2 \<le> length run \<and> last run = 58 \<and> startswith s2 (lit ''**'')
              then value_after stop_line (drop 2 s2)
              else None)"

text \<open>A pattern \<open>LABEL\s*(X+)\<close> with a literal label, such as \<open>\*\*Miles:\*\*\s*([^\n|]+)\<close>.\<close>

definition match_sub :: "pystr \<Rightarrow> (nat \<Rightarrow> bool) \<Rightarrow> pystr \<Rightarrow> pystr option" where
  "match_sub label stop s =
     (if startswith s label then value_after stop (drop (length label) s) else None)"

text \<open>
  A pattern \<open>LABEL X+\<close> of the clean-up, such as \<open>\*\*Miles:\*\*[^\n|]+\<close>: the length of
  its match at the head of \<open>s\<close>. The last pattern of the clean-up, \<open>\|\<close>, is the bar alone.
\<close>

definition match_del :: "pystr \<Rightarrow> (nat \<Rightarrow> bool) \<Rightarrow> pystr \<Rightarrow> nat option" where
  "match_del label stop s =
     (let run = takeWhile (\<lambda>c. \<not> stop c) (drop (length label) s)
      in if startswith s label \<and> run \<noteq> [] then Some (length label + length run) else None)"

definition match_bar :: "pystr \<Rightarrow> nat option" where
  "match_bar s = (if startswith s [124] then Some 1 else None)"

text \<open>\<open>re.sub(pattern, '', s)\<close>: every match, found as by \<open>finditer\<close>, is left out.\<close>

fun re_sub_empty :: "(pystr \<Rightarrow> nat option) \<Rightarrow> nat \<Rightarrow> pystr \<Rightarrow> pystr" where
  "re_sub_empty m k [] = []"
| "re_sub_empty m (Suc k) (c # cs) = re_sub_empty m k cs"
| "re_sub_empty m 0 (c # cs) =
     (case m (c # cs) of
        None \<Rightarrow> c # re_sub_empty m 0 cs
      | Some n \<Rightarrow> re_sub_empty m (n - 1) cs)"

subsection \<open>parse_outline_document\<close>

definition labelled_fields :: "pystr list" where
  "labelled_fields =
     [lit ''meeting_time'', lit ''meeting_location'', lit ''tour_rating'',
      lit ''terrain'', lit ''technical_difficulty'', lit ''altitude'']"

text \<open>The value of a field block after the clean-up of the labelled fields.\<close>

definition clean_field :: "pystr \<Rightarrow> pystr \<Rightarrow> pystr" where
  "clean_field field_name field_value =
     (if field_name \<in> set labelled_fields
      then (case re_search match_label field_value of
              None \<Rightarrow> field_value
            | Some g \<Rightarrow>
                (let v = py_strip g in if v = lit ''_Not specified_'' then [] else v))
      else field_value)"

text \<open>The body of the loop over the field matches.\<close>

definition store_field :: "(pystr \<times> pystr) list \<Rightarrow> pystr \<times> pystr \<Rightarrow> (pystr \<times> pystr) list" where
  "store_field fs m =
     (let field_name = fst m;
          field_value = clean_field field_name (py_strip (snd m))
      in if field_value \<noteq> [] \<and> field_value \<noteq> lit ''_No short description yet._'' \<and>
            field_value \<noteq> lit ''_No description yet._''
         then AList.update field_name field_value fs
         else fs)"

text \<open>The clean-up that leaves the free text of a day.\<close>

definition remaining_content :: "pystr \<Rightarrow> pystr" where
  "remaining_content day_content =
     py_strip
       (re_sub_empty match_bar 0
         (re_sub_empty (match_del (lit ''**Meals:**'') stop_line) 0
           (re_sub_empty (match_del (lit ''**Lodging:**'') stop_line) 0
             (re_sub_empty (match_del (lit ''**Route:**'') stop_line) 0
               (re_sub_empty (match_del (lit ''**Elevation:**'') stop_cell) 0
                 (re_sub_empty (match_del (lit ''**Miles:**'') stop_cell) 0 day_content))))))"

definition sub_field :: "pystr \<Rightarrow> (nat \<Rightarrow> bool) \<Rightarrow> pystr \<Rightarrow> pystr option" where
  "sub_field label stop day_content =
     map_option py_strip (re_search (match_sub label stop) day_content)"

text \<open>The body of the loop over the day matches; \<open>int\<close> is where it could raise.\<close>

definition parse_day :: "unicode \<Rightarrow> pystr \<times> pystr \<Rightarrow> exn + day" where
  "parse_day U m =
     (case py_int U (fst m) of
        Inl e \<Rightarrow> Inl e
      | Inr day_num \<Rightarrow>
          (let day_content = py_strip (snd m);
               remaining = remaining_content day_content
           in Inr \<lparr> day_number = day_num,
                    miles = sub_field (lit ''**Miles:**'') stop_cell day_content,
                    elevation = sub_field (lit ''**Elevation:**'') stop_cell day_content,
                    trails_waypoints = sub_field (lit ''**Route:**'') stop_line day_content,
                    camp_lodging = sub_field (lit ''**Lodging:**'') stop_line day_content,
                    meals = sub_field (lit ''**Meals:**'') stop_line day_content,
                    content = (if remaining \<noteq> [] then Some remaining else None) \<rparr>))"

fun day_loop :: "unicode \<Rightarrow> (pystr \<times> pystr) list \<Rightarrow> exn + day list" where
  "day_loop U [] = Inr []"
| "day_loop U (m # ms) =
     (case parse_day U m of
        Inl e \<Rightarrow> Inl e
      | Inr d \<Rightarrow> (case day_loop U ms of Inl e \<Rightarrow> Inl e | Inr ds \<Rightarrow> Inr (d # ds)))"

definition parse_outline_document :: "unicode \<Rightarrow> pystr \<Rightarrow> exn + parse_result" where
  "parse_outline_document U text =
     (let fs = foldl store_field [] (finditer (field_pattern U) 0 text)
      in case day_loop U (finditer (day_pattern U) 0 text) of
           Inl e \<Rightarrow> Inl e
         | Inr ds \<Rightarrow> Inr \<lparr> fields_p = fs, itinerary_days_p = ds \<rparr>)"

text \<open>
  The tables cut to ASCII: no character beyond ASCII is alphanumeric, a digit or cased.
  They give what Python gives on every text of ASCII characters, which is what the
  concrete documents below are.
\<close>

definition ascii_tables :: unicode where
  "ascii_tables = \<lparr> alnum_ext = (\<lambda>c. False), decimal_ext = (\<lambda>c. None),
                    lower_ext = map lower_ascii, title_ext = title_ascii False \<rparr>"

section \<open>The canonical store\<close>

text \<open>
  CURRENT_TIMESTAMP is an input of every database call (\<open>now\<close>). The tables are maps
  from their keys: \<open>tours\<close> by \<open>id\<close>, \<open>tour_itinerary_days\<close> by the unique pair
  \<open>(tour_id, day_number)\<close>; \<open>sync_log\<close> is a list that only grows. The schema (CREATE
  TABLE) is not part of the sources, so a column carries no length or range limit here
  and a statement of the source always executes.
\<close>

type_synonym timestamp = nat

text \<open>
  A row of \<open>tours\<close>: the columns that \<open>get_tours_from_db\<close> selects and the Pull writes,
  by name, and the bookkeeping column \<open>last_outline_sync\<close>, which no function reads.
\<close>

record tour_row =
  col :: "pystr \<Rightarrow> pyval"
  last_outline_sync :: "timestamp option"

text \<open>
  A row of \<open>tour_itinerary_days\<close>; \<open>None\<close> is SQL NULL. \<open>updated_at\<close> is not among the
  columns of the INSERT, so a new row has the column's default, written \<open>None\<close>.
\<close>

record itinerary_row =
  r_miles :: "pystr option"
  r_elevation :: "pystr option"
  r_trails_waypoints :: "pystr option"
  r_camp_lodging :: "pystr option"
  r_meals :: "pystr option"
  r_content :: "pystr option"
  r_source :: "pystr option"
  r_updated_at :: "timestamp option"

record log_entry =
  sync_type :: pystr
  log_tour_id :: int
  status :: pystr
  records_affected :: nat
  details :: "(pystr \<times> pyval) list option"
  error_message :: "pystr option"

record db =
  tours :: "int \<rightharpoonup> tour_row"
  itinerary :: "int \<times> int \<rightharpoonup> itinerary_row"
  sync_log :: "log_entry list"

text \<open>Field ownership: what can be edited in Outline.\<close>

definition EDITABLE_FIELDS :: "pystr list" where
  "EDITABLE_FIELDS =
     [lit ''title'', lit ''subtitle'', lit ''short_description'', lit ''description'',
      lit ''special_notes'', lit ''meeting_time'', lit ''meeting_location'',
      lit ''tour_rating'', lit ''terrain'', lit ''technical_difficulty'', lit ''altitude'']"

definition READONLY_FIELDS :: "pystr list" where
  "READONLY_FIELDS =
     [lit ''website_id'', lit ''slug'', lit ''permalink'', lit ''tour_type'', lit ''region'',
      lit ''duration'', lit ''season'', lit ''style'', lit ''skill_level'', lit ''departs'',
      lit ''distance'']"

subsection \<open>update_tour_outline_doc_id\<close>


subsection \<open>update_tour_from_outline\<close>

text \<open>
  The UPDATE sets one column for every item of \<open>safe_updates\<close> and the sync timestamp,
  in the row of the tour if there is one; the result is the row count.
\<close>

definition set_columns :: "(pystr \<Rightarrow> pyval) \<Rightarrow> (pystr \<times> pystr) list \<Rightarrow> (pystr \<Rightarrow> pyval)" where
  "set_columns c updates = foldl (\<lambda>c kv. c(fst kv := PStr (snd kv))) c updates"

definition update_tour_from_outline ::
    "timestamp \<Rightarrow> db \<Rightarrow> int \<Rightarrow> (pystr \<times> pystr) list \<Rightarrow> db \<times> nat" where
  "update_tour_from_outline now s tour_id updates =
     (let safe_updates = filter (\<lambda>kv. fst kv \<in> set EDITABLE_FIELDS) updates
      in if safe_updates = [] then (s, 0)
         else (case tours s tour_id of
                 None \<Rightarrow> (s, 0)
               | Some r \<Rightarrow>
                   (s\<lparr>tours := (tours s)(tour_id \<mapsto>
                        r\<lparr>col := set_columns (col r) safe_updates,
                          last_outline_sync := Some now\<rparr>)\<rparr>, 1)))"

subsection \<open>update_itinerary_from_outline\<close>

text \<open>
  The statement of the loop body: INSERT ... ON CONFLICT (tour_id, day_number) DO UPDATE.
  Without a conflict the row is inserted with the eight given columns; with one, the six
  sub-fields are set to the values of the excluded row, \<open>source\<close> to \<open>'outline'\<close> and
  \<open>updated_at\<close> to the current timestamp.
\<close>

definition upsert_day :: "timestamp \<Rightarrow> int \<Rightarrow> day \<Rightarrow> db \<Rightarrow> db" where
  "upsert_day now tour_id d s =
     (let k = (tour_id, day_number d);
          new = \<lparr> r_miles = miles d, r_elevation = elevation d,
                  r_trails_waypoints = trails_waypoints d,
                  r_camp_lodging = camp_lodging d, r_meals = meals d,
                  r_content = content d, r_source = Some (lit ''outline''),
                  r_updated_at = None \<rparr>
      in case itinerary s k of
           None \<Rightarrow> s\<lparr>itinerary := (itinerary s)(k \<mapsto> new)\<rparr>
         | Some old \<Rightarrow>
             s\<lparr>itinerary := (itinerary s)(k \<mapsto>
                  old\<lparr> r_miles := miles d, r_elevation := elevation d,
                       r_trails_waypoints := trails_waypoints d,
                       r_camp_lodging := camp_lodging d, r_meals := meals d,
                       r_content := content d, r_source := Some (lit ''outline''),
                       r_updated_at := Some now \<rparr>)\<rparr>)"

text \<open>
  The loop over \<open>days\<close> with its counter: a day whose number is falsy (0) is skipped by
  \<open>if not day_num: continue\<close>.
\<close>

fun itinerary_loop :: "timestamp \<Rightarrow> int \<Rightarrow> day list \<Rightarrow> db \<times> nat \<Rightarrow> db \<times> nat" where
  "itinerary_loop now tour_id [] (s, count) = (s, count)"
| "itinerary_loop now tour_id (d # ds) (s, count) =
     (if day_number d = 0 then itinerary_loop now tour_id ds (s, count)
      else itinerary_loop now tour_id ds (upsert_day now tour_id d s, count + 1))"

definition update_itinerary_from_outline ::
    "timestamp \<Rightarrow> db \<Rightarrow> int \<Rightarrow> day list \<Rightarrow> db \<times> nat" where
  "update_itinerary_from_outline now s tour_id days = itinerary_loop now tour_id days (s, 0)"


subsection \<open>log_sync\<close>

text \<open>\<open>details\<close> is stored (as JSON) when it is a non-empty dict, NULL otherwise.\<close>

definition log_sync ::
    "db \<Rightarrow> pystr \<Rightarrow> int \<Rightarrow> pystr \<Rightarrow> (pystr \<times> pyval) list \<Rightarrow> pystr option \<Rightarrow> db" where
  "log_sync s kind tid stat dets err =
     s\<lparr>sync_log := sync_log s @
         [\<lparr> sync_type = kind, log_tour_id = tid, status = stat,
            records_affected = (if stat = lit ''success'' then 1 else 0),
            details = (if dets = [] then None else Some dets),
            error_message = err \<rparr>]\<rparr>"

section \<open>Document generation\<close>

text \<open>
  A tour as the dict that \<open>get_tours_from_db\<close> builds from a row: \<open>tour['id']\<close> and the
  other selected columns by name (every one is a key, \<open>PNone\<close> for NULL).
\<close>

record tour =
  tour_id :: int
  get :: "pystr \<Rightarrow> pyval"



subsection \<open>Parts that the two generators share\<close>









subsection \<open>generate_reference_header\<close>




subsection \<open>generate_tour_document\<close>







section \<open>Sync operations\<close>

subsection \<open>strip_existing_header\<close>










subsection \<open>is_day_tour\<close>


subsection \<open>The Outline API\<close>

text \<open>
  The \<open>data\<close> of a response: a document with its id, title and text. A request is one of
  the three endpoints the sync uses, with the payload that the wrapper builds:
  \<open>create_outline_document\<close> sends the parent only when it is not empty, and
  \<open>update_outline_document\<close> sends a title or a text only when it is not empty.
\<close>

record document =
  doc_id :: pystr
  doc_title :: pystr
  doc_text :: pystr

datatype api_call =
    DocumentsInfo pystr
  | DocumentsCreate pystr pystr pystr "pystr option"
  | DocumentsUpdate pystr "pystr option" "pystr option"

text \<open>
  The server is an input: it answers a request with an error (\<open>outline_request\<close> raises
  on every status but 200) or with the \<open>data\<close> of the response, which may be missing.
\<close>

type_synonym api = "api_call \<Rightarrow> exn + document option"

text \<open>
  What a run does to the world outside the store, in order: a request to Outline, or a
  file written to disk. Only the backup of \<open>outline_consolidate.py\<close> writes files.
\<close>

datatype file_content = DocumentJson document | ManifestJson "(pystr \<times> pystr \<times> pystr) list"

datatype effect = Remote api_call | WriteFile pystr file_content





text \<open>\<open>str(e)\<close> of a caught exception.\<close>

fun exn_str :: "exn \<Rightarrow> pystr" where
  "exn_str (ApiError m) = m"
| "exn_str ValueError = lit ''invalid literal for int()''"
| "exn_str TypeError = lit '''NoneType' object is not subscriptable''"

subsection \<open>push_tour_to_outline\<close>










text \<open>The requests of a run that write to Outline.\<close>

fun is_write :: "effect \<Rightarrow> bool" where
  "is_write (Remote (DocumentsCreate a b c d)) = True"
| "is_write (Remote (DocumentsUpdate a b c)) = True"
| "is_write (Remote (DocumentsInfo a)) = False"
| "is_write (WriteFile p c) = False"

definition remote_writes :: "effect list \<Rightarrow> effect list" where
  "remote_writes effects = filter is_write effects"

subsection \<open>pull_tour_from_outline\<close>

datatype pull_result =
    PullSkipped pystr
  | PullError pystr
  | WouldUpdate "pystr list" nat
  | PullUpdated nat nat

definition pull_failed :: "db \<Rightarrow> int \<Rightarrow> exn \<Rightarrow> db \<times> pull_result" where
  "pull_failed s tid e =
     (log_sync s (lit ''outline_pull'') tid (lit ''failed'') [] (Some (exn_str e)),
      PullError (exn_str e))"

text \<open>The writes of a pull, once the document is parsed.\<close>

definition pull_write :: "timestamp \<Rightarrow> db \<Rightarrow> int \<Rightarrow> parse_result \<Rightarrow> db \<times> pull_result" where
  "pull_write now s tid p =
     (let r1 = update_tour_from_outline now s tid (fields_p p);
          r2 = (if itinerary_days_p p \<noteq> []
                then update_itinerary_from_outline now (fst r1) tid (itinerary_days_p p)
                else (fst r1, 0))
      in (log_sync (fst r2) (lit ''outline_pull'') tid (lit ''success'')
            [(lit ''fields_updated'', PInt (int (snd r1))),
             (lit ''days_updated'', PInt (int (snd r2)))] None,
          PullUpdated (snd r1) (snd r2)))"

text \<open>
  The id of the linked document is a text column; the request is made with it as it is.
\<close>

definition pull_tour_from_outline ::
    "unicode \<Rightarrow> api \<Rightarrow> timestamp \<Rightarrow> db \<Rightarrow> tour \<Rightarrow> bool \<Rightarrow> db \<times> pull_result" where
  "pull_tour_from_outline U server now s t dry_run =
     (let did = get t (lit ''outline_doc_id'')
      in if \<not> truthy did then (s, PullSkipped (lit ''no_doc_id''))
         else (case server (DocumentsInfo (py_str did)) of
                 Inl e \<Rightarrow> pull_failed s (tour_id t) e
               | Inr None \<Rightarrow> (s, PullError (lit ''Document not found''))
               | Inr (Some doc) \<Rightarrow>
                   (case parse_outline_document U (doc_text doc) of
                      Inl e \<Rightarrow> pull_failed s (tour_id t) e
                    | Inr p \<Rightarrow>
                        if dry_run
                        then (s, WouldUpdate (map fst (fields_p p)) (length (itinerary_days_p p)))
                        else pull_write now s (tour_id t) p)))"

section \<open>The backup of outline_consolidate.py\<close>

text \<open>
  \<open>backup_all_documents\<close> is a command of its own and the first step of
  \<open>migrate_documents\<close>. It fetches every listed document and writes what it fetched into
  a file of a directory named after the time, then a manifest of the files written. Its
  \<open>get_outline_document\<close> answers \<open>None\<close> when the request fails. \<open>docs\<close> is the listing
  (id and title of every document), an input here as the directory name is.
\<close>

definition create_backup_dir :: "pystr \<Rightarrow> pystr \<Rightarrow> pystr" where
  "create_backup_dir backups_dir timestamp = backups_dir @ lit ''/outline_'' @ timestamp"

text \<open>\<open>re.sub(r'[^\w\s-]', '', title)[:50]\<close>.\<close>

definition safe_title :: "unicode \<Rightarrow> pystr \<Rightarrow> pystr" where
  "safe_title U title = take 50 (filter (\<lambda>c. is_word U c \<or> is_space c \<or> c = 45) title)"

definition backup_filename :: "unicode \<Rightarrow> pystr \<Rightarrow> pystr \<Rightarrow> pystr" where
  "backup_filename U did title = did @ lit ''_'' @ safe_title U title @ lit ''.json''"

fun backup_loop ::
    "unicode \<Rightarrow> api \<Rightarrow> pystr \<Rightarrow> (pystr \<times> pystr) list \<Rightarrow>
     effect list \<times> (pystr \<times> pystr \<times> pystr) list" where
  "backup_loop U server backup_dir [] = ([], [])"
| "backup_loop U server backup_dir ((did, title) # docs) =
     (let rest = backup_loop U server backup_dir docs
      in case server (DocumentsInfo did) of
           Inr (Some full_doc) \<Rightarrow>
             (Remote (DocumentsInfo did)
                # WriteFile (backup_dir @ lit ''/'' @ backup_filename U did title)
                    (DocumentJson full_doc)
                # fst rest,
              (did, title, backup_filename U did title) # snd rest)
         | _ \<Rightarrow> (Remote (DocumentsInfo did) # fst rest, snd rest))"

definition backup_all_documents ::
    "unicode \<Rightarrow> api \<Rightarrow> pystr \<Rightarrow> (pystr \<times> pystr) list \<Rightarrow> effect list" where
  "backup_all_documents U server backup_dir docs =
     (let r = backup_loop U server backup_dir docs
      in fst r @ [WriteFile (backup_dir @ lit ''/manifest.json'') (ManifestJson (snd r))])"

text \<open>
  A snapshot of the document \<open>did\<close>: a file that holds the document as it was fetched.
  A run backs up before it updates when every update request in it comes after a
  snapshot of the document it updates.
\<close>

fun is_snapshot_of :: "pystr \<Rightarrow> effect \<Rightarrow> bool" where
  "is_snapshot_of did (WriteFile path (DocumentJson d)) = (doc_id d = did)"
| "is_snapshot_of did (WriteFile path (ManifestJson m)) = False"
| "is_snapshot_of did (Remote c) = False"

fun backed_up_before_update :: "effect list \<Rightarrow> effect list \<Rightarrow> bool" where
  "backed_up_before_update before [] = True"
| "backed_up_before_update before (Remote (DocumentsUpdate did title text) # es) =
     (list_ex (is_snapshot_of did) before \<and>
      backed_up_before_update (before @ [Remote (DocumentsUpdate did title text)]) es)"
| "backed_up_before_update before (e # es) = backed_up_before_update (before @ [e]) es"

text \<open>
  The names of the fields that a pull of the tour \<open>t\<close> parses from its document: the keys
  of the parsed field map, none when no document is fetched or parsed.
\<close>

definition pulled_fields :: "unicode \<Rightarrow> api \<Rightarrow> tour \<Rightarrow> pystr list" where
  "pulled_fields U server t =
     (case server (DocumentsInfo (py_str (get t (lit ''outline_doc_id'')))) of
        Inr (Some doc) \<Rightarrow>
          (case parse_outline_document U (doc_text doc) of
             Inr p \<Rightarrow> map fst (fields_p p)
           | Inl e \<Rightarrow> [])
      | _ \<Rightarrow> [])"

text \<open>The value of the column \<open>f\<close> in the row of the tour \<open>i\<close>, if there is such a row.\<close>

definition column :: "db \<Rightarrow> int \<Rightarrow> pystr \<Rightarrow> pyval option" where
  "column s i f = map_option (\<lambda>r. col r f) (tours s i)"

section \<open>Concrete inputs\<close>

text \<open>A store with one tour and a stored day 0 and day 3 of it.\<close>

definition old_row :: itinerary_row where
  "old_row = \<lparr> r_miles = Some (lit ''12''), r_elevation = Some (lit ''900ft''),
               r_trails_waypoints = None, r_camp_lodging = Some (lit ''Camp A''),
               r_meals = None, r_content = Some (lit ''Old text.''),
               r_source = Some (lit ''docx''), r_updated_at = None \<rparr>"

definition tour_42 :: "pystr \<Rightarrow> pyval" where
  "tour_42 k =
     (if k = lit ''title'' then PStr (lit ''Moab Classic'')
      else if k = lit ''slug'' then PStr (lit ''moab-classic'')
      else if k = lit ''description'' then PStr (lit ''Four days on the White Rim.'')
      else if k = lit ''region'' then PStr (lit ''Moab'')
      else if k = lit ''outline_doc_id'' then PStr (lit ''doc-1'')
      else PNone)"

definition store_0 :: db where
  "store_0 = \<lparr> tours = [42 \<mapsto> \<lparr> col = tour_42, last_outline_sync = None \<rparr>],
               itinerary = [(42, 0) \<mapsto> old_row, (42, 3) \<mapsto> old_row],
               sync_log = [] \<rparr>"



text \<open>The tour of the store as the dict of \<open>get_tours_from_db\<close>, and a configuration.\<close>

definition moab :: tour where
  "moab = \<lparr> tour_id = 42, get = tour_42 \<rparr>"




text \<open>A server that holds one document, \<open>doc-1\<close>, with the given text, and accepts every write.\<close>

definition stored_doc :: "pystr \<Rightarrow> document" where
  "stored_doc text = \<lparr> doc_id = lit ''doc-1'', doc_title = lit ''moab-classic'', doc_text = text \<rparr>"

definition server_with :: "pystr \<Rightarrow> api" where
  "server_with text c = Inr (Some (stored_doc text))"


text \<open>
  A document edited by hand: a field block named after the read-only column \<open>slug\<close>, and
  a new description.
\<close>

definition edited_text :: pystr where
  "edited_text =
     lit ''<!-- FIELD:slug -->hacked<!-- /FIELD:slug -->'' @ 10 #
     lit ''<!-- FIELD:description -->New text.<!-- /FIELD:description -->''"

section \<open>Running the model\<close>

text \<open>
  The equations of the two scans for a count that is a numeral, and the definitions that
  the simplifier unfolds to run the parser on a concrete text.
\<close>

lemma finditer_pos: "0 < k \<Longrightarrow> finditer m k (c # cs) = finditer m (k - 1) cs"
  by (cases k) simp_all

lemma re_sub_empty_pos: "0 < k \<Longrightarrow> re_sub_empty m k (c # cs) = re_sub_empty m (k - 1) cs"
  by (cases k) simp_all

lemmas parser_eval =
  parse_outline_document_def field_pattern_def day_pattern_def match_block_def
  store_field_def clean_field_def labelled_fields_def startswith_def py_strip_def is_space_def
  is_word_def is_digit_def decimal_def is_upper_ascii_def is_lower_ascii_def
  match_label_def value_after_def stop_line_def stop_cell_def match_sub_def match_del_def
  match_bar_def remaining_content_def sub_field_def parse_day_def py_int_def
  finditer_pos re_sub_empty_pos ascii_tables_def lit_def Let_def

section \<open>Day upsert\<close>








section \<open>Stripping a header that has no legacy marker\<close>










section \<open>What a pull writes\<close>


lemma set_columns_other:
  "f \<notin> fst ` set updates \<Longrightarrow> set_columns c updates f = c f"
  unfolding set_columns_def
  by (induction updates arbitrary: c) auto

lemma column_update_tour:
  assumes "f \<notin> set EDITABLE_FIELDS \<or> f \<notin> fst ` set updates"
  shows "column (fst (update_tour_from_outline now s tid updates)) i f = column s i f"
proof -
  let ?safe = "filter (\<lambda>kv. fst kv \<in> set EDITABLE_FIELDS) updates"
  have "f \<notin> fst ` set ?safe"
    using assms by auto
  then have "set_columns c ?safe f = c f" for c
    by (rule set_columns_other)
  then show ?thesis
    by (auto simp: update_tour_from_outline_def column_def Let_def split: option.split)
qed

lemma tours_upsert_day: "tours (upsert_day now tid d s) = tours s"
  by (simp add: upsert_day_def Let_def split: option.split)

lemma tours_itinerary_loop: "tours (fst (itinerary_loop now tid ds sc)) = tours (fst sc)"
  by (induction now tid ds sc rule: itinerary_loop.induct) (simp_all add: tours_upsert_day)

lemma tours_update_itinerary:
  "tours (fst (update_itinerary_from_outline now s tid ds)) = tours s"
  by (simp add: update_itinerary_from_outline_def tours_itinerary_loop)

lemma tours_log_sync: "tours (log_sync s k tid st ds e) = tours s"
  by (simp add: log_sync_def)

lemma column_cong: "tours s' = tours s \<Longrightarrow> column s' i f = column s i f"
  by (simp add: column_def)

lemma column_pull_write:
  assumes "f \<notin> set EDITABLE_FIELDS \<or> f \<notin> fst ` set (fields_p p)"
  shows "column (fst (pull_write now s tid p)) i f = column s i f"
proof -
  let ?s1 = "fst (update_tour_from_outline now s tid (fields_p p))"
  have "tours (fst (pull_write now s tid p)) = tours ?s1"
    by (simp add: pull_write_def Let_def tours_log_sync tours_update_itinerary)
  then have "column (fst (pull_write now s tid p)) i f = column ?s1 i f"
    by (rule column_cong)
  also have "\<dots> = column s i f"
    by (rule column_update_tour [OF assms])
  finally show ?thesis .
qed

lemma column_pull_failed: "column (fst (pull_failed s tid e)) i f = column s i f"
  by (simp add: pull_failed_def column_def tours_log_sync)

lemma column_pull:
  assumes "f \<notin> set EDITABLE_FIELDS \<or> f \<notin> set (pulled_fields U server t)"
  shows "column (fst (pull_tour_from_outline U server now s t dry_run)) i f = column s i f"
proof (cases "server (DocumentsInfo (py_str (get t (lit ''outline_doc_id''))))")
  case (Inl e)
  then show ?thesis
    by (simp add: pull_tour_from_outline_def Let_def column_pull_failed)
next
  case (Inr r)
  show ?thesis
  proof (cases r)
    case None
    with Inr show ?thesis
      by (simp add: pull_tour_from_outline_def Let_def)
  next
    case (Some doc)
    show ?thesis
    proof (cases "parse_outline_document U (doc_text doc)")
      case (Inl e)
      with Inr Some show ?thesis
        by (simp add: pull_tour_from_outline_def Let_def column_pull_failed)
    next
      case p: (Inr p)
      have "pulled_fields U server t = map fst (fields_p p)"
        using Inr Some p by (simp add: pulled_fields_def)
      with assms have "f \<notin> set EDITABLE_FIELDS \<or> f \<notin> fst ` set (fields_p p)"
        by simp
      then have "column (fst (pull_write now s (tour_id t) p)) i f = column s i f"
        by (rule column_pull_write)
      with Inr Some p show ?thesis
        by (simp add: pull_tour_from_outline_def Let_def)
    qed
  qed
qed




text \<open>
  C6. A pull changes no column whose name is absent from the parsed field map: the column
  keeps its value, so it is never set to NULL. What a pull writes in the tours table is
  therefore within the fields of the parsed map (and the time of the sync).
\<close>

theorem pull_keeps_absent_fields:
  assumes "f \<notin> set (pulled_fields U server t)"
  shows "column (fst (pull_tour_from_outline U server now s t dry_run)) i f = column s i f"
  using assms by (intro column_pull) simp

text \<open>
  The theorem at the same document: it has no block for the title, an editable field, and
  the title of the tour is what it was.
\<close>

theorem pull_keeps_absent_fields_witness:
  "lit ''title'' \<in> set EDITABLE_FIELDS \<and>
   lit ''title'' \<notin> set (pulled_fields ascii_tables (server_with edited_text) moab) \<and>
   column (fst (pull_tour_from_outline ascii_tables (server_with edited_text) 7 store_0 moab False))
     42 (lit ''title'') = Some (PStr (lit ''Moab Classic''))"
proof -
  have a: "lit ''title'' \<in> set EDITABLE_FIELDS"
    by (simp add: EDITABLE_FIELDS_def lit_def)
  have b: "lit ''title'' \<notin> set (pulled_fields ascii_tables (server_with edited_text) moab)"
    by (simp add: pulled_fields_def server_with_def stored_doc_def edited_text_def parser_eval)
  have c: "column store_0 42 (lit ''title'') = Some (PStr (lit ''Moab Classic''))"
    by (simp add: column_def store_0_def tour_42_def lit_def)
  show ?thesis
    using pull_keeps_absent_fields [OF b, of 7 store_0 False 42] a b c
    by simp
qed

end
